theory Spec2Isabelle
  imports Main
begin

section \<open>JavaScript values\<close>

text \<open>
  The values that \<open>JSON.parse\<close> produces, together with \<open>undefined\<close>. Numbers are the
  integers (ids and HTTP status codes); an object is its list of properties, looked up
  by the first entry for a key.
\<close>

datatype jsval =
    Undefined
  | Null
  | JBool bool
  | JNum int
  | JStr string
  | JArr "jsval list"
  | JObj "(string \<times> jsval) list"

text \<open>Truthiness, as \<open>&&\<close>, \<open>||\<close>, \<open>!\<close> and \<open>? :\<close> test it.\<close>

fun truthy :: "jsval \<Rightarrow> bool" where
  "truthy Undefined = False"
| "truthy Null = False"
| "truthy (JBool b) = b"
| "truthy (JNum n) = (n \<noteq> 0)"
| "truthy (JStr s) = (s \<noteq> [])"
| "truthy (JArr xs) = True"
| "truthy (JObj kvs) = True"

text \<open>
  Reading an own property \<open>v.k\<close> of a truthy value: a property of an object, and
  \<open>undefined\<close> on every other value (for keys that no prototype defines, as
  \<open>error\<close>, \<open>message\<close>).
\<close>

fun member_of :: "jsval \<Rightarrow> string \<Rightarrow> jsval" where
  "member_of (JObj kvs) k = (case map_of kvs k of Some v \<Rightarrow> v | None \<Rightarrow> Undefined)"
| "member_of v k = Undefined"

text \<open>
  String conversion, as a template literal and \<open>new Error(m)\<close> apply it. A number in the
  safe range (at most \<open>2^53 - 1\<close> in magnitude) is written in decimal digits; how the
  platform writes a number beyond it (rounded digits, exponent form) is the parameter
  \<open>big\<close>. An object with an own property \<open>toString\<close> cannot be converted, since no value
  of JSON is callable: the conversion throws a TypeError, which is \<open>None\<close> here. Every
  other object is written by \<open>Object.prototype.toString\<close>, and an array joins the
  conversions of its elements, with nothing for \<open>null\<close> and \<open>undefined\<close>.
\<close>

fun nat_digits :: "nat \<Rightarrow> string" where
  "nat_digits n =
     (if n < 10 then [''0123456789'' ! n]
      else nat_digits (n div 10) @ [''0123456789'' ! (n mod 10)])"

declare nat_digits.simps [simp del]

definition int_digits :: "int \<Rightarrow> string" where
  "int_digits i = (if i < 0 then ''-'' @ nat_digits (nat (- i)) else nat_digits (nat i))"

definition safe_integer :: "int \<Rightarrow> bool" where
  "safe_integer n = (\<bar>n\<bar> \<le> 9007199254740991)"

definition number_to_string :: "(int \<Rightarrow> string) \<Rightarrow> int \<Rightarrow> string" where
  "number_to_string big n = (if safe_integer n then int_digits n else big n)"

fun join_with :: "string \<Rightarrow> string list \<Rightarrow> string" where
  "join_with sep [] = []"
| "join_with sep [x] = x"
| "join_with sep (x # y # ys) = x @ sep @ join_with sep (y # ys)"

fun to_string :: "(int \<Rightarrow> string) \<Rightarrow> jsval \<Rightarrow> string option"
  and elems_to_string :: "(int \<Rightarrow> string) \<Rightarrow> jsval list \<Rightarrow> string list option" where
  "to_string big Undefined = Some ''undefined''"
| "to_string big Null = Some ''null''"
| "to_string big (JBool b) = Some (if b then ''true'' else ''false'')"
| "to_string big (JNum n) = Some (number_to_string big n)"
| "to_string big (JStr s) = Some s"
| "to_string big (JArr xs) = map_option (join_with '','') (elems_to_string big xs)"
| "to_string big (JObj kvs) =
     (if ''toString'' \<in> set (map fst kvs) then None else Some ''[object Object]'')"
| "elems_to_string big [] = Some []"
| "elems_to_string big (x # xs) =
     (case (if x = Undefined \<or> x = Null then Some [] else to_string big x) of
        None \<Rightarrow> None
      | Some s \<Rightarrow> map_option ((#) s) (elems_to_string big xs))"

text \<open>
  A template literal: its texts and substitutions, converted from left to right;
  \<open>None\<close> when a conversion throws.
\<close>

datatype piece = Lit string | Sub jsval

fun template_literal :: "(int \<Rightarrow> string) \<Rightarrow> piece list \<Rightarrow> string option" where
  "template_literal big [] = Some []"
| "template_literal big (Lit s # ps) = map_option ((@) s) (template_literal big ps)"
| "template_literal big (Sub v # ps) =
     (case to_string big v of
        None \<Rightarrow> None
      | Some s \<Rightarrow> map_option ((@) s) (template_literal big ps))"

text \<open>
  \<open>JSON.stringify\<close> leaves out every property whose value is \<open>undefined\<close> and writes an
  \<open>undefined\<close> array element as \<open>null\<close>. A request body is kept as the value its text
  denotes, which is the argument after that step.
\<close>

fun json_norm :: "jsval \<Rightarrow> jsval"
  and json_norm_fields :: "(string \<times> jsval) list \<Rightarrow> (string \<times> jsval) list"
  and json_norm_elems :: "jsval list \<Rightarrow> jsval list" where
  "json_norm (JObj kvs) = JObj (json_norm_fields kvs)"
| "json_norm (JArr xs) = JArr (json_norm_elems xs)"
| "json_norm Undefined = Undefined"
| "json_norm Null = Null"
| "json_norm (JBool b) = JBool b"
| "json_norm (JNum n) = JNum n"
| "json_norm (JStr s) = JStr s"
| "json_norm_fields [] = []"
| "json_norm_fields ((k, v) # kvs) =
     (if v = Undefined then json_norm_fields kvs else (k, json_norm v) # json_norm_fields kvs)"
| "json_norm_elems [] = []"
| "json_norm_elems (x # xs) =
     (if x = Undefined then Null else json_norm x) # json_norm_elems xs"

definition JSON_stringify :: "jsval \<Rightarrow> jsval option" where
  "JSON_stringify v = (if v = Undefined then None else Some (json_norm v))"

section \<open>The HTTP helper of api.js\<close>

record response =
  res_ok :: bool
  res_status :: int
  res_statusText :: string
  res_text :: string

text \<open>An \<open>Error\<close> object: its message, and the \<open>status\<close> and \<open>payload\<close> properties that
  \<open>http\<close> sets (absent on an error that \<open>fetch\<close> itself rejects with).\<close>

datatype js_error = JsError (err_message: string) (err_status: "int option") (err_payload: jsval)

record options =
  opt_headers :: "(string \<times> string) list option"
  opt_method :: "string option"
  opt_body :: "jsval option"

definition no_options :: options where
  "no_options = \<lparr>opt_headers = None, opt_method = None, opt_body = None\<rparr>"

record request =
  req_url :: string
  req_headers :: "(string \<times> string) list"
  req_method :: string
  req_body :: "jsval option"

text \<open>
  The second argument of \<open>fetch\<close>: the \<open>headers\<close> property merges the content type with
  \<open>options.headers\<close>, and the spread of \<open>options\<close> after it replaces \<open>headers\<close> when
  \<open>options\<close> has that key. \<open>fetch\<close> uses GET when no method is given.
\<close>

definition merge_headers :: "(string \<times> string) list \<Rightarrow> (string \<times> string) list \<Rightarrow> (string \<times> string) list" where
  "merge_headers a b = filter (\<lambda>(k, v). k \<notin> fst ` set b) a @ b"

definition fetch_request :: "string \<Rightarrow> string \<Rightarrow> options \<Rightarrow> request" where
  "fetch_request BASE path opts =
     (let merged = merge_headers [(''Content-Type'', ''application/json'')]
                     (case opt_headers opts of None \<Rightarrow> [] | Some h \<Rightarrow> h)
      in \<lparr>req_url = BASE @ path,
          req_headers = (case opt_headers opts of None \<Rightarrow> merged | Some h \<Rightarrow> h),
          req_method = (case opt_method opts of None \<Rightarrow> ''GET'' | Some m \<Rightarrow> m),
          req_body = opt_body opts\<rparr>)"

text \<open>
  The platform: \<open>BASE\<close> (the environment's API URL, or the empty string), \<open>JSON.parse\<close>
  (\<open>None\<close> when it throws), the text of a number beyond the safe range, the TypeError
  that a failed string conversion throws, and \<open>fetch\<close>, which acts on a world \<open>'w\<close> and
  either rejects or resolves to a response whose text has been read.
\<close>

record 'w runtime =
  rt_BASE :: string
  rt_parse :: "string \<Rightarrow> jsval option"
  rt_number_to_string :: "int \<Rightarrow> string"
  rt_TypeError :: js_error
  rt_fetch :: "request \<Rightarrow> 'w \<Rightarrow> (js_error + response) \<times> 'w"

definition http_body :: "(string \<Rightarrow> jsval option) \<Rightarrow> string \<Rightarrow> jsval" where
  "http_body parse txt =
     (if txt \<noteq> [] then (case parse txt of Some v \<Rightarrow> v | None \<Rightarrow> JStr txt) else Null)"

text \<open>
  The message that \<open>http\<close> passes to \<open>new Error\<close>, converted to a string there;
  \<open>None\<close> when that conversion throws.
\<close>

definition http_message :: "(int \<Rightarrow> string) \<Rightarrow> jsval \<Rightarrow> string \<Rightarrow> string option" where
  "http_message big body statusText =
     (if truthy body \<and> truthy (member_of body ''error'')
         \<and> truthy (member_of (member_of body ''error'') ''message'')
      then to_string big (member_of (member_of body ''error'') ''message'')
      else Some statusText)"

definition http_result :: "'w runtime \<Rightarrow> response \<Rightarrow> js_error + jsval" where
  "http_result rt res =
     (let body = http_body (rt_parse rt) (res_text res)
      in if \<not> res_ok res
         then (case http_message (rt_number_to_string rt) body (res_statusText res) of
                 None \<Rightarrow> Inl (rt_TypeError rt)
               | Some message \<Rightarrow> Inl (JsError message (Some (res_status res)) body))
         else Inr body)"

definition http :: "'w runtime \<Rightarrow> string \<Rightarrow> options \<Rightarrow> 'w \<Rightarrow> (js_error + jsval) \<times> 'w" where
  "http rt path opts w =
     (case rt_fetch rt (fetch_request (rt_BASE rt) path opts) w of
        (Inl e, w') \<Rightarrow> (Inl e, w')
      | (Inr res, w') \<Rightarrow> (http_result rt res, w'))"

text \<open>
  A call \<open>http(`...`, options)\<close> whose path is a template literal: when the literal throws,
  the call is not made and the TypeError is the outcome.
\<close>

definition http_at :: "'w runtime \<Rightarrow> piece list \<Rightarrow> options \<Rightarrow> 'w \<Rightarrow> (js_error + jsval) \<times> 'w" where
  "http_at rt pieces opts w =
     (case template_literal (rt_number_to_string rt) pieces of
        None \<Rightarrow> (Inl (rt_TypeError rt), w)
      | Some path \<Rightarrow> http rt path opts w)"

subsection \<open>The eight API functions\<close>

definition listTasks :: "'w runtime \<Rightarrow> 'w \<Rightarrow> (js_error + jsval) \<times> 'w" where
  "listTasks rt = http rt ''/api/tasks'' no_options"

definition createTask :: "'w runtime \<Rightarrow> jsval \<Rightarrow> jsval \<Rightarrow> 'w \<Rightarrow> (js_error + jsval) \<times> 'w" where
  "createTask rt title description =
     http rt ''/api/tasks''
       (no_options\<lparr>opt_method := Some ''POST'',
          opt_body := JSON_stringify (JObj [(''title'', title), (''description'', description)])\<rparr>)"

definition updateTask :: "'w runtime \<Rightarrow> jsval \<Rightarrow> jsval \<Rightarrow> 'w \<Rightarrow> (js_error + jsval) \<times> 'w" where
  "updateTask rt ident body =
     http_at rt [Lit ''/api/tasks/'', Sub ident]
       (no_options\<lparr>opt_method := Some ''PUT'', opt_body := JSON_stringify body\<rparr>)"

definition deleteTask :: "'w runtime \<Rightarrow> jsval \<Rightarrow> 'w \<Rightarrow> (js_error + jsval) \<times> 'w" where
  "deleteTask rt ident =
     http_at rt [Lit ''/api/tasks/'', Sub ident] (no_options\<lparr>opt_method := Some ''DELETE''\<rparr>)"

definition listComments :: "'w runtime \<Rightarrow> jsval \<Rightarrow> 'w \<Rightarrow> (js_error + jsval) \<times> 'w" where
  "listComments rt taskId =
     http_at rt [Lit ''/api/tasks/'', Sub taskId, Lit ''/comments''] no_options"

definition createComment :: "'w runtime \<Rightarrow> jsval \<Rightarrow> jsval \<Rightarrow> jsval \<Rightarrow> 'w \<Rightarrow> (js_error + jsval) \<times> 'w" where
  "createComment rt taskId content author =
     http_at rt [Lit ''/api/tasks/'', Sub taskId, Lit ''/comments'']
       (no_options\<lparr>opt_method := Some ''POST'',
          opt_body := JSON_stringify (JObj [(''content'', content), (''author'', author)])\<rparr>)"

definition updateComment :: "'w runtime \<Rightarrow> jsval \<Rightarrow> jsval \<Rightarrow> jsval \<Rightarrow> 'w \<Rightarrow> (js_error + jsval) \<times> 'w" where
  "updateComment rt taskId commentId body =
     http_at rt [Lit ''/api/tasks/'', Sub taskId, Lit ''/comments/'', Sub commentId]
       (no_options\<lparr>opt_method := Some ''PUT'', opt_body := JSON_stringify body\<rparr>)"

definition deleteComment :: "'w runtime \<Rightarrow> jsval \<Rightarrow> jsval \<Rightarrow> 'w \<Rightarrow> (js_error + jsval) \<times> 'w" where
  "deleteComment rt taskId commentId =
     http_at rt [Lit ''/api/tasks/'', Sub taskId, Lit ''/comments/'', Sub commentId]
       (no_options\<lparr>opt_method := Some ''DELETE''\<rparr>)"

text \<open>A world that records every request handed to \<open>fetch\<close>, answered by \<open>srv\<close>.\<close>

definition recording :: "(request \<Rightarrow> js_error + response) \<Rightarrow> request \<Rightarrow> request list
    \<Rightarrow> (js_error + response) \<times> request list" where
  "recording srv req log = (srv req, log @ [req])"

definition recording_runtime :: "string \<Rightarrow> (string \<Rightarrow> jsval option) \<Rightarrow> (int \<Rightarrow> string) \<Rightarrow> js_error
    \<Rightarrow> (request \<Rightarrow> js_error + response) \<Rightarrow> (request list) runtime" where
  "recording_runtime B parse big te srv =
     \<lparr>rt_BASE = B, rt_parse = parse, rt_number_to_string = big, rt_TypeError = te,
      rt_fetch = recording srv\<rparr>"

definition json_headers :: "(string \<times> string) list" where
  "json_headers = [(''Content-Type'', ''application/json'')]"

definition no_content :: response where
  "no_content = \<lparr>res_ok = True, res_status = 204, res_statusText = ''NO CONTENT'', res_text = []\<rparr>"

section \<open>The client state of App.js\<close>

text \<open>
  Entities as the client reads them. An absent or \<open>null\<close> property is \<open>None\<close>. A successful
  reply is given as the decoded \<open>data\<close> of its envelope (a task, a list of tasks, a list of
  comments), the shapes that the interface fixes; a failed call is the error thrown.
\<close>

record task =
  t_id :: int
  t_title :: string
  t_description :: "string option"
  t_created_at :: "string option"
  t_updated_at :: "string option"

record comment =
  c_id :: int
  c_task_id :: int
  c_content :: string
  c_author :: "string option"
  c_created_at :: "string option"
  c_updated_at :: "string option"

text \<open>The calls of the API functions that a handler makes, in order, with their arguments.\<close>

datatype api_call =
    ListTasks
  | CreateTask jsval jsval
  | UpdateTask int jsval
  | DeleteTask int
  | ListComments int
  | CreateComment int jsval jsval
  | UpdateComment int int jsval
  | DeleteComment int int

fun issue :: "'w runtime \<Rightarrow> api_call \<Rightarrow> 'w \<Rightarrow> (js_error + jsval) \<times> 'w" where
  "issue rt ListTasks = listTasks rt"
| "issue rt (CreateTask title description) = createTask rt title description"
| "issue rt (UpdateTask ident body) = updateTask rt (JNum ident) body"
| "issue rt (DeleteTask ident) = deleteTask rt (JNum ident)"
| "issue rt (ListComments taskId) = listComments rt (JNum taskId)"
| "issue rt (CreateComment taskId content author) = createComment rt (JNum taskId) content author"
| "issue rt (UpdateComment taskId commentId body) = updateComment rt (JNum taskId) (JNum commentId) body"
| "issue rt (DeleteComment taskId commentId) = deleteComment rt (JNum taskId) (JNum commentId)"

text \<open>\<open>s || d\<close> on a string, and \<open>e.message || d\<close> on an error.\<close>

definition or_else :: "string \<Rightarrow> string \<Rightarrow> string" where
  "or_else s d = (if s \<noteq> [] then s else d)"

definition message_or :: "js_error \<Rightarrow> string \<Rightarrow> string" where
  "message_or e d = or_else (err_message e) d"

text \<open>\<open>!selectedId\<close>: true on \<open>null\<close> and on the number 0.\<close>

definition not_selected :: "int option \<Rightarrow> bool" where
  "not_selected sel = (case sel of None \<Rightarrow> True | Some i \<Rightarrow> i = 0)"

subsection \<open>App\<close>

record app_state =
  app_tasks :: "task list"
  app_selectedId :: "int option"
  app_loading :: bool
  app_err :: string

definition app_init :: app_state where
  "app_init = \<lparr>app_tasks = [], app_selectedId = None, app_loading = False, app_err = []\<rparr>"

text \<open>
  A handler takes the outcome of each call it awaits and the state it runs in; it gives
  the error it throws (if any), the state after it, and the calls it made.
\<close>

type_synonym 's outcome = "js_error option \<times> 's \<times> api_call list"

definition thrown :: "'s outcome \<Rightarrow> js_error option" where
  "thrown r = fst r"

definition state_of :: "'s outcome \<Rightarrow> 's" where
  "state_of r = fst (snd r)"

definition calls_of :: "'s outcome \<Rightarrow> api_call list" where
  "calls_of r = snd (snd r)"

definition selectedTask :: "app_state \<Rightarrow> task option" where
  "selectedTask st = find (\<lambda>t. Some (t_id t) = app_selectedId st) (app_tasks st)"

text \<open>
  \<open>fetchTasks\<close> and \<open>removeTask\<close> read \<open>selectedId\<close> as a variable of the render that
  created them: the argument \<open>captured\<close>. Their state updates act on the state \<open>st\<close> in
  which the reply arrives; \<open>setTasks\<close> with a function argument reads the list of that
  state.
\<close>

definition fetchTasks :: "int option \<Rightarrow> (js_error + task list) \<Rightarrow> app_state \<Rightarrow> app_state outcome" where
  "fetchTasks captured reply st =
     (case reply of
        Inr data \<Rightarrow>
          (None,
           st\<lparr>app_tasks := data,
              app_selectedId :=
                (case data of
                   [] \<Rightarrow> app_selectedId st
                 | first # rest \<Rightarrow>
                     if not_selected captured then Some (t_id first)
                     else app_selectedId st),
              app_err := [],
              app_loading := False\<rparr>,
           [ListTasks])
      | Inl e \<Rightarrow>
          (None,
           st\<lparr>app_err := message_or e ''Failed to load tasks'', app_loading := False\<rparr>,
           [ListTasks]))"

text \<open>
  The initial load: the effect with no dependencies runs \<open>fetchTasks\<close> of the first render,
  where \<open>selectedId\<close> is its initial value.
\<close>

definition initial_load :: "(js_error + task list) \<Rightarrow> app_state \<Rightarrow> app_state outcome" where
  "initial_load reply st = fetchTasks (app_selectedId app_init) reply st"

definition addTask :: "jsval \<Rightarrow> jsval \<Rightarrow> (js_error + task) \<Rightarrow> app_state \<Rightarrow> app_state outcome" where
  "addTask title description reply st =
     (case reply of
        Inl e \<Rightarrow> (Some e, st, [CreateTask title description])
      | Inr newTask \<Rightarrow>
          (None,
           st\<lparr>app_tasks := app_tasks st @ [newTask], app_selectedId := Some (t_id newTask)\<rparr>,
           [CreateTask title description]))"

definition removeTask :: "int option \<Rightarrow> int \<Rightarrow> (js_error + jsval) \<Rightarrow> app_state \<Rightarrow> app_state outcome" where
  "removeTask captured ident reply st =
     (case reply of
        Inl e \<Rightarrow> (Some e, st, [DeleteTask ident])
      | Inr v \<Rightarrow>
          (None,
           st\<lparr>app_tasks := filter (\<lambda>t. t_id t \<noteq> ident) (app_tasks st),
              app_selectedId :=
                (if captured = Some ident then None else app_selectedId st)\<rparr>,
           [DeleteTask ident]))"

definition saveTask :: "int \<Rightarrow> jsval \<Rightarrow> (js_error + task) \<Rightarrow> app_state \<Rightarrow> app_state outcome" where
  "saveTask ident body reply st =
     (case reply of
        Inl e \<Rightarrow> (Some e, st, [UpdateTask ident body])
      | Inr updated \<Rightarrow>
          (None,
           st\<lparr>app_tasks := map (\<lambda>t. if t_id t = ident then updated else t) (app_tasks st)\<rparr>,
           [UpdateTask ident body]))"

subsection \<open>TaskList and TaskDetail\<close>

record task_form =
  tf_title :: string
  tf_description :: string
  tf_err :: string



text \<open>
  The delete button of a task row calls \<open>onDelete(t.id)\<close>, which is \<open>removeTask\<close> of the
  render that drew the row (with the state \<open>rendered\<close>), in no \<open>try\<close>: an error it throws
  is caught by nobody and no state changes.
\<close>

definition TaskList_delete :: "app_state \<Rightarrow> int \<Rightarrow> (js_error + jsval) \<Rightarrow> task_form \<times> app_state
    \<Rightarrow> (task_form \<times> app_state) outcome" where
  "TaskList_delete rendered ident reply fs =
     (case removeTask (app_selectedId rendered) ident reply (snd fs) of
        (t, st', calls) \<Rightarrow> (t, (fst fs, st'), calls))"



text \<open>
  The timestamp line of TaskDetail: \<open>ts?.replace('T', ' ').slice(0, 19) || '-'\<close>.
  \<open>replace\<close> with a string pattern replaces the first occurrence only.
\<close>

fun replace_first :: "char \<Rightarrow> char \<Rightarrow> string \<Rightarrow> string" where
  "replace_first a b [] = []"
| "replace_first a b (c # cs) = (if c = a then b # cs else c # replace_first a b cs)"

definition slice_from_0 :: "nat \<Rightarrow> string \<Rightarrow> string" where
  "slice_from_0 n s = take n s"

definition display_timestamp :: "string option \<Rightarrow> string" where
  "display_timestamp ts =
     (case ts of
        None \<Rightarrow> ''-''
      | Some s \<Rightarrow> or_else (slice_from_0 19 (replace_first (CHR ''T'') (CHR '' '') s)) ''-'')"

subsection \<open>CommentList and EditableComment\<close>

record comments_state =
  cl_comments :: "comment list"
  cl_content :: string
  cl_author :: string
  cl_loading :: bool
  cl_err :: string

definition comments_init :: comments_state where
  "comments_init = \<lparr>cl_comments = [], cl_content = [], cl_author = [], cl_loading = False, cl_err = []\<rparr>"

definition fetchComments :: "int \<Rightarrow> (js_error + comment list) \<Rightarrow> comments_state
    \<Rightarrow> comments_state outcome" where
  "fetchComments taskId reply st =
     (case reply of
        Inr data \<Rightarrow>
          (None, st\<lparr>cl_comments := data, cl_err := [], cl_loading := False\<rparr>, [ListComments taskId])
      | Inl e \<Rightarrow>
          (None, st\<lparr>cl_err := message_or e ''Failed to load comments'', cl_loading := False\<rparr>,
           [ListComments taskId]))"

text \<open>Running \<open>await fetchComments()\<close> after the calls made so far.\<close>

definition then_fetchComments :: "int \<Rightarrow> (js_error + comment list) \<Rightarrow> api_call list
    \<Rightarrow> comments_state \<Rightarrow> comments_state outcome" where
  "then_fetchComments taskId listed calls st =
     (case fetchComments taskId listed st of (t, st', calls') \<Rightarrow> (t, st', calls @ calls'))"

text \<open>The author that the add form sends: \<open>author || undefined\<close>.\<close>

definition add_author :: "comments_state \<Rightarrow> jsval" where
  "add_author st = (if cl_author st \<noteq> [] then JStr (cl_author st) else Undefined)"

definition add :: "int \<Rightarrow> (js_error + jsval) \<Rightarrow> (js_error + comment list) \<Rightarrow> comments_state
    \<Rightarrow> comments_state outcome" where
  "add taskId reply listed st =
     (let call = CreateComment taskId (JStr (cl_content st)) (add_author st)
      in case reply of
           Inr v \<Rightarrow>
             then_fetchComments taskId listed [call]
               (st\<lparr>cl_err := [], cl_content := [], cl_author := []\<rparr>)
         | Inl e \<Rightarrow> (None, st\<lparr>cl_err := message_or e ''Failed to add comment''\<rparr>, [call]))"

definition save :: "int \<Rightarrow> int \<Rightarrow> jsval \<Rightarrow> (js_error + jsval) \<Rightarrow> (js_error + comment list)
    \<Rightarrow> comments_state \<Rightarrow> comments_state outcome" where
  "save taskId ident body reply listed st =
     (case reply of
        Inr v \<Rightarrow> then_fetchComments taskId listed [UpdateComment taskId ident body] (st\<lparr>cl_err := []\<rparr>)
      | Inl e \<Rightarrow>
          (None, st\<lparr>cl_err := message_or e ''Failed to update comment''\<rparr>,
           [UpdateComment taskId ident body]))"

definition remove :: "int \<Rightarrow> int \<Rightarrow> (js_error + jsval) \<Rightarrow> (js_error + comment list)
    \<Rightarrow> comments_state \<Rightarrow> comments_state outcome" where
  "remove taskId ident reply listed st =
     (case reply of
        Inr v \<Rightarrow> then_fetchComments taskId listed [DeleteComment taskId ident] (st\<lparr>cl_err := []\<rparr>)
      | Inl e \<Rightarrow>
          (None, st\<lparr>cl_err := message_or e ''Failed to delete comment''\<rparr>,
           [DeleteComment taskId ident]))"

record edit_state =
  ec_isEditing :: bool
  ec_content :: string
  ec_author :: string

text \<open>The initial state of an EditableComment: \<open>useState(c.author || '')\<close>.\<close>

definition edit_init :: "comment \<Rightarrow> edit_state" where
  "edit_init c =
     \<lparr>ec_isEditing = False, ec_content = c_content c,
      ec_author = (case c_author c of None \<Rightarrow> [] | Some a \<Rightarrow> or_else a [])\<rparr>"

text \<open>The body that the edit form saves: \<open>{content, author: author || null}\<close>.\<close>

definition edit_body :: "edit_state \<Rightarrow> jsval" where
  "edit_body e =
     JObj [(''content'', JStr (ec_content e)),
           (''author'', if ec_author e \<noteq> [] then JStr (ec_author e) else Null)]"

definition EditableComment_save :: "int \<Rightarrow> comment \<Rightarrow> (js_error + jsval) \<Rightarrow> (js_error + comment list)
    \<Rightarrow> edit_state \<times> comments_state \<Rightarrow> (edit_state \<times> comments_state) outcome" where
  "EditableComment_save taskId c reply listed es =
     (case save taskId (c_id c) (edit_body (fst es)) reply listed (snd es) of
        (t, st', calls) \<Rightarrow> (t, ((fst es)\<lparr>ec_isEditing := False\<rparr>, st'), calls))"

text \<open>The author shown for a comment: \<open>c.author || 'Anonymous'\<close>.\<close>

definition display_author :: "comment \<Rightarrow> string" where
  "display_author c = (case c_author c of None \<Rightarrow> ''Anonymous'' | Some a \<Rightarrow> or_else a ''Anonymous'')"

subsection \<open>The shape of a timestamp\<close>

text \<open>
  The first 19 characters of an ISO-8601 timestamp, \<open>YYYY-MM-DDTHH:MM:SS\<close>: digits, with
  \<open>-\<close> at the positions 4 and 7, \<open>T\<close> at 10 and \<open>:\<close> at 13 and 16.
\<close>

definition is_digit :: "char \<Rightarrow> bool" where
  "is_digit c = (c \<in> set ''0123456789'')"

definition iso_date_time :: "string \<Rightarrow> bool" where
  "iso_date_time p =
     (length p = 19
      \<and> p ! 4 = CHR ''-'' \<and> p ! 7 = CHR ''-'' \<and> p ! 10 = CHR ''T''
      \<and> p ! 13 = CHR '':'' \<and> p ! 16 = CHR '':''
      \<and> list_all (\<lambda>i. is_digit (p ! i)) [0, 1, 2, 3, 5, 6, 8, 9, 11, 12, 14, 15, 17, 18])"

section \<open>The data/API layer\<close>

text \<open>
  The store of the backend and its operations, modelled from the specification of the
  data/API layer. Every operation is one transition of the store: it returns an error and
  no new store, or its result and the store after it.
\<close>

datatype api_error = ValidationError | NotFoundError | InternalError

record stored_task =
  st_id :: int
  st_title :: string
  st_description :: "string option"
  st_created_at :: nat
  st_updated_at :: nat

record stored_comment =
  sc_id :: int
  sc_task_id :: int
  sc_content :: string
  sc_author :: "string option"
  sc_created_at :: nat
  sc_updated_at :: nat

record store =
  db_tasks :: "stored_task list"
  db_comments :: "stored_comment list"
  db_next_task_id :: int
  db_next_comment_id :: int
  db_clock :: nat

definition empty_store :: store where
  "empty_store = \<lparr>db_tasks = [], db_comments = [], db_next_task_id = 1, db_next_comment_id = 1,
     db_clock = 0\<rparr>"

text \<open>Modelled from the spec: timestamps are assigned by the server; every write reads a
  clock that has advanced since the write before it.\<close>

definition tick :: "store \<Rightarrow> nat" where
  "tick s = Suc (db_clock s)"

definition task_exists :: "store \<Rightarrow> int \<Rightarrow> bool" where
  "task_exists s ident = (ident \<in> st_id ` set (db_tasks s))"

text \<open>Modelled from the spec: \<open>listTasks() -> Task[]\<close> returns all tasks (here in creation
  order).\<close>

definition srv_listTasks :: "store \<Rightarrow> stored_task list" where
  "srv_listTasks s = db_tasks s"

text \<open>Modelled from the spec: \<open>createTask({title, description?})\<close> fails with ValidationError
  if the title is missing or empty; otherwise it persists a new row and assigns id and
  timestamps, with \<open>created_at = updated_at\<close>.\<close>

definition srv_createTask :: "string option \<Rightarrow> string option \<Rightarrow> store
    \<Rightarrow> api_error + stored_task \<times> store" where
  "srv_createTask title description s =
     (case title of
        None \<Rightarrow> Inl ValidationError
      | Some ttl \<Rightarrow>
          if ttl = [] then Inl ValidationError
          else
            (let t = \<lparr>st_id = db_next_task_id s, st_title = ttl, st_description = description,
                      st_created_at = tick s, st_updated_at = tick s\<rparr>
             in Inr (t, s\<lparr>db_tasks := db_tasks s @ [t],
                          db_next_task_id := db_next_task_id s + 1,
                          db_clock := tick s\<rparr>)))"

text \<open>Modelled from the spec: \<open>getTask(id)\<close> fails with NotFoundError if no task has that
  id.\<close>

definition srv_getTask :: "int \<Rightarrow> store \<Rightarrow> api_error + stored_task" where
  "srv_getTask ident s =
     (case find (\<lambda>t. st_id t = ident) (db_tasks s) of
        None \<Rightarrow> Inl NotFoundError
      | Some t \<Rightarrow> Inr t)"

text \<open>Modelled from the spec: \<open>updateTask(id, {title?, description?})\<close> fails with
  NotFoundError if the task is missing, whatever the body, and with ValidationError if the
  resulting title would be empty; it refreshes \<open>updated_at\<close>.\<close>

definition srv_updateTask :: "int \<Rightarrow> string option \<Rightarrow> string option \<Rightarrow> store
    \<Rightarrow> api_error + stored_task \<times> store" where
  "srv_updateTask ident title description s =
     (case find (\<lambda>t. st_id t = ident) (db_tasks s) of
        None \<Rightarrow> Inl NotFoundError
      | Some t \<Rightarrow>
          (let ttl = (case title of None \<Rightarrow> st_title t | Some x \<Rightarrow> x)
           in if ttl = [] then Inl ValidationError
              else
                (let t' = t\<lparr>st_title := ttl,
                            st_description :=
                              (case description of None \<Rightarrow> st_description t | Some d \<Rightarrow> Some d),
                            st_updated_at := tick s\<rparr>
                 in Inr (t', s\<lparr>db_tasks :=
                           map (\<lambda>x. if st_id x = ident then t' else x) (db_tasks s),
                           db_clock := tick s\<rparr>))))"

text \<open>Modelled from the spec: \<open>deleteTask(id)\<close> fails with NotFoundError if the task is
  missing; it removes the task and, in the same write, all comments that reference it.\<close>

definition srv_deleteTask :: "int \<Rightarrow> store \<Rightarrow> api_error + store" where
  "srv_deleteTask ident s =
     (if \<not> task_exists s ident then Inl NotFoundError
      else Inr (s\<lparr>db_tasks := filter (\<lambda>t. st_id t \<noteq> ident) (db_tasks s),
                   db_comments := filter (\<lambda>c. sc_task_id c \<noteq> ident) (db_comments s),
                   db_clock := tick s\<rparr>))"

text \<open>Modelled from the spec: \<open>listComments(taskId)\<close> fails with NotFoundError if the task
  is missing, and returns the comments of that task only, in creation order.\<close>

definition srv_listComments :: "int \<Rightarrow> store \<Rightarrow> api_error + stored_comment list" where
  "srv_listComments taskId s =
     (if \<not> task_exists s taskId then Inl NotFoundError
      else Inr (filter (\<lambda>c. sc_task_id c = taskId) (db_comments s)))"

text \<open>Modelled from the spec: the content of a comment is required and at most 1000
  characters long.\<close>

definition valid_content :: "string \<Rightarrow> bool" where
  "valid_content content = (content \<noteq> [] \<and> length content \<le> 1000)"

text \<open>Modelled from the spec: \<open>createComment(taskId, {content, author?})\<close> fails with
  NotFoundError if the task is missing, before the content is looked at, and with
  ValidationError if the content is empty or too long.\<close>

definition srv_createComment :: "int \<Rightarrow> string option \<Rightarrow> string option \<Rightarrow> store
    \<Rightarrow> api_error + stored_comment \<times> store" where
  "srv_createComment taskId content author s =
     (if \<not> task_exists s taskId then Inl NotFoundError
      else
        (case content of
           None \<Rightarrow> Inl ValidationError
         | Some txt \<Rightarrow>
             if \<not> valid_content txt then Inl ValidationError
             else
               (let c = \<lparr>sc_id = db_next_comment_id s, sc_task_id = taskId, sc_content = txt,
                         sc_author = author, sc_created_at = tick s, sc_updated_at = tick s\<rparr>
                in Inr (c, s\<lparr>db_comments := db_comments s @ [c],
                             db_next_comment_id := db_next_comment_id s + 1,
                             db_clock := tick s\<rparr>))))"

text \<open>Modelled from the spec: a comment is found under a task if the task exists, the
  comment exists and the comment belongs to that task; otherwise NotFoundError.\<close>

definition find_comment :: "int \<Rightarrow> int \<Rightarrow> store \<Rightarrow> api_error + stored_comment" where
  "find_comment taskId commentId s =
     (if \<not> task_exists s taskId then Inl NotFoundError
      else
        (case find (\<lambda>c. sc_id c = commentId) (db_comments s) of
           None \<Rightarrow> Inl NotFoundError
         | Some c \<Rightarrow> if sc_task_id c \<noteq> taskId then Inl NotFoundError else Inr c))"

text \<open>Modelled from the spec: \<open>updateComment(taskId, commentId, {content?, author?})\<close> has
  the not-found cases of \<open>find_comment\<close> and fails with ValidationError on invalid
  content.\<close>

definition srv_updateComment :: "int \<Rightarrow> int \<Rightarrow> string option \<Rightarrow> string option option
    \<Rightarrow> store \<Rightarrow> api_error + stored_comment \<times> store" where
  "srv_updateComment taskId commentId content author s =
     (case find_comment taskId commentId s of
        Inl e \<Rightarrow> Inl e
      | Inr c \<Rightarrow>
          (let txt = (case content of None \<Rightarrow> sc_content c | Some x \<Rightarrow> x)
           in if \<not> valid_content txt then Inl ValidationError
              else
                (let c' = c\<lparr>sc_content := txt,
                            sc_author := (case author of None \<Rightarrow> sc_author c | Some a \<Rightarrow> a),
                            sc_updated_at := tick s\<rparr>
                 in Inr (c', s\<lparr>db_comments :=
                           map (\<lambda>x. if sc_id x = commentId then c' else x) (db_comments s),
                           db_clock := tick s\<rparr>))))"

text \<open>Modelled from the spec: \<open>deleteComment(taskId, commentId)\<close> has the same not-found
  cases as the update, and removes the comment.\<close>

definition srv_deleteComment :: "int \<Rightarrow> int \<Rightarrow> store \<Rightarrow> api_error + store" where
  "srv_deleteComment taskId commentId s =
     (case find_comment taskId commentId s of
        Inl e \<Rightarrow> Inl e
      | Inr c \<Rightarrow> Inr (s\<lparr>db_comments := filter (\<lambda>x. sc_id x \<noteq> commentId) (db_comments s),
                     db_clock := tick s\<rparr>))"

text \<open>Modelled from the spec: the write operations a client can ask for, and the store
  after a sequence of them. A write that fails is not applied at all.\<close>

datatype srv_op =
    OpCreateTask "string option" "string option"
  | OpUpdateTask int "string option" "string option"
  | OpDeleteTask int
  | OpCreateComment int "string option" "string option"
  | OpUpdateComment int int "string option" "string option option"
  | OpDeleteComment int int

fun srv_apply :: "srv_op \<Rightarrow> store \<Rightarrow> api_error + store" where
  "srv_apply (OpCreateTask title description) s =
     map_sum id snd (srv_createTask title description s)"
| "srv_apply (OpUpdateTask ident title description) s =
     map_sum id snd (srv_updateTask ident title description s)"
| "srv_apply (OpDeleteTask ident) s = srv_deleteTask ident s"
| "srv_apply (OpCreateComment taskId content author) s =
     map_sum id snd (srv_createComment taskId content author s)"
| "srv_apply (OpUpdateComment taskId commentId content author) s =
     map_sum id snd (srv_updateComment taskId commentId content author s)"
| "srv_apply (OpDeleteComment taskId commentId) s = srv_deleteComment taskId commentId s"

fun srv_run :: "srv_op list \<Rightarrow> store \<Rightarrow> store" where
  "srv_run [] s = s"
| "srv_run (op # ops) s =
     srv_run ops (case srv_apply op s of Inl e \<Rightarrow> s | Inr s' \<Rightarrow> s')"

text \<open>Modelled from the spec: a comment is orphaned if its \<open>task_id\<close> references no
  existing task.\<close>

definition orphaned :: "store \<Rightarrow> stored_comment \<Rightarrow> bool" where
  "orphaned s c = (\<not> task_exists s (sc_task_id c))"

definition no_orphans :: "store \<Rightarrow> bool" where
  "no_orphans s = list_all (\<lambda>c. \<not> orphaned s c) (db_comments s)"

section \<open>Example data\<close>

definition task1 :: task where
  "task1 = \<lparr>t_id = 1, t_title = ''Buy milk'', t_description = None,
            t_created_at = Some ''2024-05-01T10:20:30.123456'',
            t_updated_at = Some ''2024-05-01T10:20:30.123456''\<rparr>"

definition task2 :: task where
  "task2 = \<lparr>t_id = 2, t_title = ''Call bank'', t_description = Some ''before noon'',
            t_created_at = Some ''2024-05-02T08:00:00'', t_updated_at = Some ''2024-05-03T09:30:00''\<rparr>"

definition task0 :: task where
  "task0 = \<lparr>t_id = 0, t_title = ''Water plants'', t_description = None,
            t_created_at = Some ''2024-04-30T07:15:00'', t_updated_at = Some ''2024-04-30T07:15:00''\<rparr>"

definition comment_blank_author :: comment where
  "comment_blank_author = \<lparr>c_id = 10, c_task_id = 1, c_content = ''urgent'', c_author = Some [],
      c_created_at = Some ''2024-05-01T10:21:00'', c_updated_at = Some ''2024-05-01T10:21:00''\<rparr>"

definition comment_by_ana :: comment where
  "comment_by_ana = \<lparr>c_id = 11, c_task_id = 1, c_content = ''skimmed'', c_author = Some ''Ana'',
      c_created_at = Some ''2024-05-01T10:22:00'', c_updated_at = Some ''2024-05-01T10:22:00''\<rparr>"

definition comment_no_author :: comment where
  "comment_no_author = \<lparr>c_id = 12, c_task_id = 1, c_content = ''two litres'', c_author = None,
      c_created_at = Some ''2024-05-01T10:23:00'', c_updated_at = Some ''2024-05-01T10:23:00''\<rparr>"

definition task7 :: task where
  "task7 = \<lparr>t_id = 7, t_title = ''Book flights'', t_description = None,
            t_created_at = Some ''2024-05-04T18:45:10'', t_updated_at = Some ''2024-05-04T18:45:10''\<rparr>"

definition cannot_convert :: js_error where
  "cannot_convert = JsError ''Cannot convert object to primitive value'' None Undefined"

definition failed_to_fetch :: js_error where
  "failed_to_fetch = JsError ''Failed to fetch'' None Undefined"

definition exponent_form :: "int \<Rightarrow> string" where
  "exponent_form n = (if n = 1000000000000000000000 then ''1e+21'' else [])"

text \<open>Replies of a server, the values of their texts, and a runtime that records requests.\<close>

definition respond :: "int \<Rightarrow> string \<Rightarrow> string \<Rightarrow> response" where
  "respond code reason txt =
     \<lparr>res_ok = (200 \<le> code \<and> code \<le> 299), res_status = code, res_statusText = reason,
      res_text = txt\<rparr>"

definition example_parse :: "string \<Rightarrow> jsval option" where
  \<open>example_parse =
     map_of
       [(''{"data":[]}'', JObj [(''data'', JArr [])]),
        (''{"error":{"message":"Task not found"}}'',
           JObj [(''error'', JObj [(''message'', JStr ''Task not found'')])]),
        (''{"error":{"message":""}}'', JObj [(''error'', JObj [(''message'', JStr [])])]),
        (''{"error":{"kind":"internal"}}'', JObj [(''error'', JObj [(''kind'', JStr ''internal'')])]),
        (''{"error":{"message":{"toString":1}}}'',
           JObj [(''error'', JObj [(''message'', JObj [(''toString'', JNum 1)])])])]\<close>

definition example_runtime :: "(request \<Rightarrow> js_error + response) \<Rightarrow> (request list) runtime" where
  "example_runtime srv = recording_runtime [] example_parse exponent_form cannot_convert srv"

definition get_tasks :: request where
  "get_tasks = \<lparr>req_url = ''/api/tasks'', req_headers = json_headers, req_method = ''GET'',
                req_body = None\<rparr>"


section \<open>Properties of the HTTP helper\<close>


lemma http_snd_recording:
  "snd (http (recording_runtime B p big te srv) path opts log) = log @ [fetch_request B path opts]"
  by (simp add: http_def recording_def recording_runtime_def split: sum.splits prod.splits)

lemma http_at_snd_recording:
  "template_literal big pieces = Some path \<Longrightarrow>
     snd (http_at (recording_runtime B p big te srv) pieces opts log) = log @ [fetch_request B path opts]"
proof -
  assume a: "template_literal big pieces = Some path"
  have "rt_number_to_string (recording_runtime B p big te srv) = big"
    by (simp add: recording_runtime_def)
  with a have "http_at (recording_runtime B p big te srv) pieces opts log
      = http (recording_runtime B p big te srv) path opts log"
    by (simp add: http_at_def)
  then show ?thesis by (simp add: http_snd_recording)
qed

lemma fetch_request_plain:
  "fetch_request B path \<lparr>opt_headers = None, opt_method = m, opt_body = b\<rparr> =
     \<lparr>req_url = B @ path, req_headers = json_headers,
      req_method = (case m of None \<Rightarrow> ''GET'' | Some x \<Rightarrow> x), req_body = b\<rparr>"
  by (simp add: fetch_request_def merge_headers_def json_headers_def)

lemma nat_digits_small: "n < 10 \<Longrightarrow> nat_digits n = [''0123456789'' ! n]"
  by (simp add: nat_digits.simps)

text \<open>
  Claim C8. Each of the eight API functions hands \<open>fetch\<close> exactly one request, with the
  method and path of the interface table: \<open>listTasks\<close> GET /api/tasks, \<open>createTask\<close> POST
  /api/tasks, \<open>updateTask\<close> PUT /api/tasks/:id, \<open>deleteTask\<close> DELETE /api/tasks/:id,
  \<open>listComments\<close> GET /api/tasks/:taskId/comments, \<open>createComment\<close> POST on the same path,
  \<open>updateComment\<close> PUT and \<open>deleteComment\<close> DELETE /api/tasks/:taskId/comments/:commentId,
  after the \<open>BASE\<close> prefix. An id is written into the path by its string conversion, which
  for a number in the safe range is its decimal digits and for a text is the text.
\<close>

theorem api_requests:
  "snd (listTasks (recording_runtime B p big te srv) log) =
     log @ [\<lparr>req_url = B @ ''/api/tasks'', req_headers = json_headers,
             req_method = ''GET'', req_body = None\<rparr>]
   \<and> snd (createTask (recording_runtime B p big te srv) title description log) =
     log @ [\<lparr>req_url = B @ ''/api/tasks'', req_headers = json_headers, req_method = ''POST'',
             req_body = JSON_stringify (JObj [(''title'', title), (''description'', description)])\<rparr>]
   \<and> (to_string big ident = Some i \<longrightarrow>
        snd (updateTask (recording_runtime B p big te srv) ident body log) =
          log @ [\<lparr>req_url = B @ ''/api/tasks/'' @ i, req_headers = json_headers,
                  req_method = ''PUT'', req_body = JSON_stringify body\<rparr>]
        \<and> snd (deleteTask (recording_runtime B p big te srv) ident log) =
          log @ [\<lparr>req_url = B @ ''/api/tasks/'' @ i, req_headers = json_headers,
                  req_method = ''DELETE'', req_body = None\<rparr>])
   \<and> (to_string big taskId = Some t \<longrightarrow>
        snd (listComments (recording_runtime B p big te srv) taskId log) =
          log @ [\<lparr>req_url = B @ ''/api/tasks/'' @ t @ ''/comments'',
                  req_headers = json_headers, req_method = ''GET'', req_body = None\<rparr>]
        \<and> snd (createComment (recording_runtime B p big te srv) taskId content author log) =
          log @ [\<lparr>req_url = B @ ''/api/tasks/'' @ t @ ''/comments'',
                  req_headers = json_headers, req_method = ''POST'',
                  req_body = JSON_stringify (JObj [(''content'', content), (''author'', author)])\<rparr>])
   \<and> (to_string big taskId = Some t \<and> to_string big commentId = Some c \<longrightarrow>
        snd (updateComment (recording_runtime B p big te srv) taskId commentId body log) =
          log @ [\<lparr>req_url = B @ ''/api/tasks/'' @ t @ ''/comments/'' @ c,
                  req_headers = json_headers, req_method = ''PUT'', req_body = JSON_stringify body\<rparr>]
        \<and> snd (deleteComment (recording_runtime B p big te srv) taskId commentId log) =
          log @ [\<lparr>req_url = B @ ''/api/tasks/'' @ t @ ''/comments/'' @ c,
                  req_headers = json_headers, req_method = ''DELETE'', req_body = None\<rparr>])
   \<and> (safe_integer n \<longrightarrow> to_string big (JNum n) = Some (int_digits n))
   \<and> to_string big (JStr s) = Some s"
  unfolding listTasks_def createTask_def updateTask_def deleteTask_def listComments_def
    createComment_def updateComment_def deleteComment_def no_options_def
  by (simp add: http_snd_recording http_at_snd_recording fetch_request_plain number_to_string_def)

theorem api_requests_witness:
  "safe_integer 3 \<and> safe_integer 12
   \<and> to_string exponent_form (JNum 3) = Some ''3''
   \<and> snd (deleteTask (recording_runtime [] Map.empty exponent_form cannot_convert (\<lambda>r. Inr no_content))
        (JNum 3) []) =
       [\<lparr>req_url = ''/api/tasks/3'', req_headers = json_headers,
         req_method = ''DELETE'', req_body = None\<rparr>]
   \<and> snd (listComments (recording_runtime [] Map.empty exponent_form cannot_convert (\<lambda>r. Inr no_content))
        (JStr ''3'') []) =
       [\<lparr>req_url = ''/api/tasks/3/comments'', req_headers = json_headers,
         req_method = ''GET'', req_body = None\<rparr>]
   \<and> snd (updateComment (recording_runtime [] Map.empty exponent_form cannot_convert (\<lambda>r. Inr no_content))
        (JNum 3) (JNum 12) (JObj [(''content'', JStr ''urgent''), (''author'', Null)]) []) =
       [\<lparr>req_url = ''/api/tasks/3/comments/12'', req_headers = json_headers,
         req_method = ''PUT'',
         req_body = Some (JObj [(''content'', JStr ''urgent''), (''author'', Null)])\<rparr>]"
proof -
  have s: "safe_integer 3" "safe_integer 12" by (simp_all add: safe_integer_def)
  have d3: "int_digits 3 = ''3''" by (simp add: int_digits_def nat_digits_small)
  have d12: "int_digits 12 = ''12''" by (simp add: int_digits_def nat_digits.simps [of 12] nat_digits_small)
  note a = api_requests [of "[]" Map.empty exponent_form cannot_convert "\<lambda>r. Inr no_content" "[]" _ _
      "JNum 3" "''3''" _ "JStr ''3''" "''3''" _ _ _ _ 3 _]
  note b = api_requests [of "[]" Map.empty exponent_form cannot_convert "\<lambda>r. Inr no_content" "[]" _ _
      _ _ "JObj [(''content'', JStr ''urgent''), (''author'', Null)]" "JNum 3" "''3''" _ _ "JNum 12" "''12''" 12 _]
  have t3: "to_string exponent_form (JNum 3) = Some ''3''" using a s d3 by simp
  have t12: "to_string exponent_form (JNum 12) = Some ''12''" using b s d12 by simp
  have 1: "snd (deleteTask (recording_runtime [] Map.empty exponent_form cannot_convert (\<lambda>r. Inr no_content))
        (JNum 3) []) =
       [\<lparr>req_url = ''/api/tasks/3'', req_headers = json_headers,
         req_method = ''DELETE'', req_body = None\<rparr>]"
    using a t3 by simp
  have 2: "snd (listComments (recording_runtime [] Map.empty exponent_form cannot_convert (\<lambda>r. Inr no_content))
        (JStr ''3'') []) =
       [\<lparr>req_url = ''/api/tasks/3/comments'', req_headers = json_headers,
         req_method = ''GET'', req_body = None\<rparr>]"
    using a by simp
  have 3: "snd (updateComment (recording_runtime [] Map.empty exponent_form cannot_convert (\<lambda>r. Inr no_content))
        (JNum 3) (JNum 12) (JObj [(''content'', JStr ''urgent''), (''author'', Null)]) []) =
       [\<lparr>req_url = ''/api/tasks/3/comments/12'', req_headers = json_headers,
         req_method = ''PUT'',
         req_body = Some (JObj [(''content'', JStr ''urgent''), (''author'', Null)])\<rparr>]"
    using b t3 t12 by (simp add: JSON_stringify_def)
  from s t3 1 2 3 show ?thesis by blast
qed


lemma http_resolved:
  "rt_fetch rt (fetch_request (rt_BASE rt) path opts) w = (Inr res, w') \<Longrightarrow>
     http rt path opts w = (http_result rt res, w')"
  by (simp add: http_def)

lemma http_rejected:
  "rt_fetch rt (fetch_request (rt_BASE rt) path opts) w = (Inl e, w') \<Longrightarrow>
     http rt path opts w = (Inl e, w')"
  by (simp add: http_def)

lemma http_result_ok:
  "res_ok res \<Longrightarrow> http_result rt res = Inr (http_body (rt_parse rt) (res_text res))"
  by (simp add: http_result_def)

lemma http_result_not_ok:
  "\<not> res_ok res \<Longrightarrow>
     http_result rt res =
       (case http_message (rt_number_to_string rt) (http_body (rt_parse rt) (res_text res))
               (res_statusText res) of
          None \<Rightarrow> Inl (rt_TypeError rt)
        | Some m \<Rightarrow> Inl (JsError m (Some (res_status res)) (http_body (rt_parse rt) (res_text res))))"
  by (simp add: http_result_def Let_def)

lemma example_fetch:
  "rt_fetch (example_runtime srv) req log = (srv req, log @ [req])"
  "rt_BASE (example_runtime srv) = []"
  "rt_parse (example_runtime srv) = example_parse"
  "rt_number_to_string (example_runtime srv) = exponent_form"
  "rt_TypeError (example_runtime srv) = cannot_convert"
  by (simp_all add: example_runtime_def recording_runtime_def recording_def)

lemma get_tasks_request: "fetch_request [] ''/api/tasks'' no_options = get_tasks"
  by (simp add: fetch_request_def no_options_def merge_headers_def get_tasks_def json_headers_def)

text \<open>
  Claim C10 as stated fails for an error that \<open>http\<close> throws without building it: when
  \<open>fetch\<close> rejects, \<open>listTasks\<close> throws that rejection, which has no HTTP status.
\<close>

theorem http_rejection_counterexample:
  "listTasks (example_runtime (\<lambda>r. Inl failed_to_fetch)) [] = (Inl failed_to_fetch, [get_tasks])
   \<and> err_status failed_to_fetch = None"
  by (simp add: listTasks_def http_def example_fetch get_tasks_request failed_to_fetch_def)

text \<open>
  Claim C10, amended. When \<open>fetch\<close> resolves to a response with \<open>res.ok\<close>, \<open>http\<close> resolves
  to the parsed body when the text is non-empty and parses, to the raw text when it does
  not parse, and to \<open>null\<close> when the text is empty; so \<open>deleteTask\<close> and \<open>deleteComment\<close>
  resolve to \<open>null\<close> on an empty response. The error that \<open>http\<close> builds for a response
  without \<open>res.ok\<close> has the HTTP status as its \<open>status\<close> and the body as its \<open>payload\<close>. An
  error that \<open>http\<close> does not build is thrown as it is: the rejection of \<open>fetch\<close>, and the
  TypeError of a message that has no string conversion.
\<close>

theorem http_resolves:
  "(rt_fetch rt (fetch_request (rt_BASE rt) path opts) w = (Inr res, w')
        \<and> res_ok res \<and> res_text res \<noteq> [] \<and> rt_parse rt (res_text res) = Some v
      \<longrightarrow> http rt path opts w = (Inr v, w'))
   \<and> (rt_fetch rt (fetch_request (rt_BASE rt) path opts) w = (Inr res, w')
        \<and> res_ok res \<and> res_text res \<noteq> [] \<and> rt_parse rt (res_text res) = None
      \<longrightarrow> http rt path opts w = (Inr (JStr (res_text res)), w'))
   \<and> (rt_fetch rt (fetch_request (rt_BASE rt) path opts) w = (Inr res, w')
        \<and> res_ok res \<and> res_text res = []
      \<longrightarrow> http rt path opts w = (Inr Null, w'))
   \<and> (to_string (rt_number_to_string rt) ident = Some i
        \<and> rt_fetch rt (fetch_request (rt_BASE rt) (''/api/tasks/'' @ i)
              (no_options\<lparr>opt_method := Some ''DELETE''\<rparr>)) w = (Inr res, w')
        \<and> res_ok res \<and> res_text res = []
      \<longrightarrow> deleteTask rt ident w = (Inr Null, w'))
   \<and> (to_string (rt_number_to_string rt) taskId = Some t
        \<and> to_string (rt_number_to_string rt) commentId = Some c
        \<and> rt_fetch rt (fetch_request (rt_BASE rt) (''/api/tasks/'' @ t @ ''/comments/'' @ c)
              (no_options\<lparr>opt_method := Some ''DELETE''\<rparr>)) w = (Inr res, w')
        \<and> res_ok res \<and> res_text res = []
      \<longrightarrow> deleteComment rt taskId commentId w = (Inr Null, w'))
   \<and> (rt_fetch rt (fetch_request (rt_BASE rt) path opts) w = (Inr res, w')
        \<and> \<not> res_ok res
        \<and> http_message (rt_number_to_string rt) (http_body (rt_parse rt) (res_text res))
              (res_statusText res) = Some m
      \<longrightarrow> http rt path opts w =
            (Inl (JsError m (Some (res_status res)) (http_body (rt_parse rt) (res_text res))), w'))
   \<and> (rt_fetch rt (fetch_request (rt_BASE rt) path opts) w = (Inr res, w')
        \<and> \<not> res_ok res
        \<and> http_message (rt_number_to_string rt) (http_body (rt_parse rt) (res_text res))
              (res_statusText res) = None
      \<longrightarrow> http rt path opts w = (Inl (rt_TypeError rt), w'))
   \<and> (rt_fetch rt (fetch_request (rt_BASE rt) path opts) w = (Inl e, w')
      \<longrightarrow> http rt path opts w = (Inl e, w'))"
proof -
  have 1: "rt_fetch rt (fetch_request (rt_BASE rt) path opts) w = (Inr res, w')
        \<and> res_ok res \<and> res_text res \<noteq> [] \<and> rt_parse rt (res_text res) = Some v
      \<longrightarrow> http rt path opts w = (Inr v, w')"
    by (simp add: http_resolved http_result_ok http_body_def)
  have 2: "rt_fetch rt (fetch_request (rt_BASE rt) path opts) w = (Inr res, w')
        \<and> res_ok res \<and> res_text res \<noteq> [] \<and> rt_parse rt (res_text res) = None
      \<longrightarrow> http rt path opts w = (Inr (JStr (res_text res)), w')"
    by (simp add: http_resolved http_result_ok http_body_def)
  have 3: "rt_fetch rt (fetch_request (rt_BASE rt) p' o') w = (Inr res, w')
        \<and> res_ok res \<and> res_text res = []
      \<longrightarrow> http rt p' o' w = (Inr Null, w')" for p' o'
    by (simp add: http_resolved http_result_ok http_body_def)
  have 4: "to_string (rt_number_to_string rt) ident = Some i
        \<and> rt_fetch rt (fetch_request (rt_BASE rt) (''/api/tasks/'' @ i)
              (no_options\<lparr>opt_method := Some ''DELETE''\<rparr>)) w = (Inr res, w')
        \<and> res_ok res \<and> res_text res = []
      \<longrightarrow> deleteTask rt ident w = (Inr Null, w')"
    using 3 by (auto simp: deleteTask_def http_at_def)
  have 5: "to_string (rt_number_to_string rt) taskId = Some t
        \<and> to_string (rt_number_to_string rt) commentId = Some c
        \<and> rt_fetch rt (fetch_request (rt_BASE rt) (''/api/tasks/'' @ t @ ''/comments/'' @ c)
              (no_options\<lparr>opt_method := Some ''DELETE''\<rparr>)) w = (Inr res, w')
        \<and> res_ok res \<and> res_text res = []
      \<longrightarrow> deleteComment rt taskId commentId w = (Inr Null, w')"
    using 3 by (auto simp: deleteComment_def http_at_def)
  have 6: "rt_fetch rt (fetch_request (rt_BASE rt) path opts) w = (Inr res, w')
        \<and> \<not> res_ok res
        \<and> http_message (rt_number_to_string rt) (http_body (rt_parse rt) (res_text res))
              (res_statusText res) = Some m
      \<longrightarrow> http rt path opts w =
            (Inl (JsError m (Some (res_status res)) (http_body (rt_parse rt) (res_text res))), w')"
    by (simp add: http_resolved http_result_not_ok)
  have 7: "rt_fetch rt (fetch_request (rt_BASE rt) path opts) w = (Inr res, w')
        \<and> \<not> res_ok res
        \<and> http_message (rt_number_to_string rt) (http_body (rt_parse rt) (res_text res))
              (res_statusText res) = None
      \<longrightarrow> http rt path opts w = (Inl (rt_TypeError rt), w')"
    by (simp add: http_resolved http_result_not_ok)
  have 8: "rt_fetch rt (fetch_request (rt_BASE rt) path opts) w = (Inl e, w')
      \<longrightarrow> http rt path opts w = (Inl e, w')"
    by (simp add: http_rejected)
  from 1 2 3 [of path opts] 4 5 6 7 8 show ?thesis by blast
qed

theorem http_resolves_witness:
  \<open>listTasks (example_runtime (\<lambda>r. Inr (respond 200 ''OK'' ''{"data":[]}''))) []
     = (Inr (JObj [(''data'', JArr [])]), [get_tasks])
   \<and> listTasks (example_runtime (\<lambda>r. Inr (respond 200 ''OK'' ''<html>''))) []
     = (Inr (JStr ''<html>''), [get_tasks])
   \<and> listTasks (example_runtime (\<lambda>r. Inr no_content)) [] = (Inr Null, [get_tasks])
   \<and> deleteTask (example_runtime (\<lambda>r. Inr no_content)) (JNum 5) []
     = (Inr Null, [fetch_request [] ''/api/tasks/5'' (no_options\<lparr>opt_method := Some ''DELETE''\<rparr>)])
   \<and> deleteComment (example_runtime (\<lambda>r. Inr no_content)) (JNum 5) (JNum 8) []
     = (Inr Null,
        [fetch_request [] ''/api/tasks/5/comments/8'' (no_options\<lparr>opt_method := Some ''DELETE''\<rparr>)])
   \<and> listTasks (example_runtime
          (\<lambda>r. Inr (respond 404 ''NOT FOUND'' ''{"error":{"message":"Task not found"}}''))) []
     = (Inl (JsError ''Task not found'' (Some 404)
               (JObj [(''error'', JObj [(''message'', JStr ''Task not found'')])])), [get_tasks])
   \<and> listTasks (example_runtime
          (\<lambda>r. Inr (respond 400 ''BAD REQUEST'' ''{"error":{"message":{"toString":1}}}''))) []
     = (Inl cannot_convert, [get_tasks])
   \<and> listTasks (example_runtime (\<lambda>r. Inl failed_to_fetch)) [] = (Inl failed_to_fetch, [get_tasks])\<close>
proof -
  have d: "to_string exponent_form (JNum 5) = Some ''5''" "to_string exponent_form (JNum 8) = Some ''8''"
    by (simp_all add: number_to_string_def safe_integer_def int_digits_def nat_digits_small)
  note defs = example_fetch get_tasks_request respond_def no_content_def example_parse_def
    http_message_def http_body_def
  have 1: \<open>listTasks (example_runtime (\<lambda>r. Inr (respond 200 ''OK'' ''{"data":[]}''))) []
     = (Inr (JObj [(''data'', JArr [])]), [get_tasks])\<close>
    unfolding listTasks_def
    using http_resolves [of \<open>example_runtime (\<lambda>r. Inr (respond 200 ''OK'' ''{"data":[]}''))\<close>
        "''/api/tasks''" no_options "[]" \<open>respond 200 ''OK'' ''{"data":[]}''\<close> "[get_tasks]"
        "JObj [(''data'', JArr [])]"]
    by (simp add: defs)
  have 2: \<open>listTasks (example_runtime (\<lambda>r. Inr (respond 200 ''OK'' ''<html>''))) []
     = (Inr (JStr ''<html>''), [get_tasks])\<close>
    unfolding listTasks_def
    using http_resolves [of \<open>example_runtime (\<lambda>r. Inr (respond 200 ''OK'' ''<html>''))\<close>
        "''/api/tasks''" no_options "[]" \<open>respond 200 ''OK'' ''<html>''\<close> "[get_tasks]"]
    by (simp add: defs)
  have 3: "listTasks (example_runtime (\<lambda>r. Inr no_content)) [] = (Inr Null, [get_tasks])"
    unfolding listTasks_def
    using http_resolves [of "example_runtime (\<lambda>r. Inr no_content)"
        "''/api/tasks''" no_options "[]" no_content "[get_tasks]"]
    by (simp add: defs)
  have 4: "deleteTask (example_runtime (\<lambda>r. Inr no_content)) (JNum 5) []
     = (Inr Null, [fetch_request [] ''/api/tasks/5'' (no_options\<lparr>opt_method := Some ''DELETE''\<rparr>)])"
    using http_resolves [of "example_runtime (\<lambda>r. Inr no_content)" _ _ "[]" no_content
        "[fetch_request [] ''/api/tasks/5'' (no_options\<lparr>opt_method := Some ''DELETE''\<rparr>)]"
        _ "JNum 5" "''5''"] d
    by (simp add: defs)
  have 5: "deleteComment (example_runtime (\<lambda>r. Inr no_content)) (JNum 5) (JNum 8) []
     = (Inr Null,
        [fetch_request [] ''/api/tasks/5/comments/8'' (no_options\<lparr>opt_method := Some ''DELETE''\<rparr>)])"
    using http_resolves [of "example_runtime (\<lambda>r. Inr no_content)" _ _ "[]" no_content
        "[fetch_request [] ''/api/tasks/5/comments/8'' (no_options\<lparr>opt_method := Some ''DELETE''\<rparr>)]"
        _ _ _ "JNum 5" "''5''" "JNum 8" "''8''"] d
    by (simp add: defs)
  have 6: \<open>listTasks (example_runtime
          (\<lambda>r. Inr (respond 404 ''NOT FOUND'' ''{"error":{"message":"Task not found"}}''))) []
     = (Inl (JsError ''Task not found'' (Some 404)
               (JObj [(''error'', JObj [(''message'', JStr ''Task not found'')])])), [get_tasks])\<close>
    unfolding listTasks_def
    using http_resolves [of \<open>example_runtime
          (\<lambda>r. Inr (respond 404 ''NOT FOUND'' ''{"error":{"message":"Task not found"}}''))\<close>
        "''/api/tasks''" no_options "[]"
        \<open>respond 404 ''NOT FOUND'' ''{"error":{"message":"Task not found"}}''\<close> "[get_tasks]"
        _ _ _ _ _ _ _ "''Task not found''"]
    by (simp add: defs)
  have 7: \<open>listTasks (example_runtime
          (\<lambda>r. Inr (respond 400 ''BAD REQUEST'' ''{"error":{"message":{"toString":1}}}''))) []
     = (Inl cannot_convert, [get_tasks])\<close>
    unfolding listTasks_def
    using http_resolves [of \<open>example_runtime
          (\<lambda>r. Inr (respond 400 ''BAD REQUEST'' ''{"error":{"message":{"toString":1}}}''))\<close>
        "''/api/tasks''" no_options "[]"
        \<open>respond 400 ''BAD REQUEST'' ''{"error":{"message":{"toString":1}}}''\<close> "[get_tasks]"]
    by (simp add: defs)
  have 8: "listTasks (example_runtime (\<lambda>r. Inl failed_to_fetch)) [] = (Inl failed_to_fetch, [get_tasks])"
    unfolding listTasks_def
    using http_resolves [of "example_runtime (\<lambda>r. Inl failed_to_fetch)"
        "''/api/tasks''" no_options "[]" _ "[get_tasks]" _ _ _ _ _ _ _ _ failed_to_fetch]
    by (simp add: defs)
  from 1 2 3 4 5 6 7 8 show ?thesis by blast
qed




lemma post_task_request:
  "fetch_request [] ''/api/tasks''
     (no_options\<lparr>opt_method := Some ''POST'',
        opt_body := JSON_stringify (JObj [(''title'', JStr []), (''description'', Undefined)])\<rparr>)
   = \<lparr>req_url = ''/api/tasks'', req_headers = json_headers, req_method = ''POST'',
      req_body = Some (JObj [(''title'', JStr [])])\<rparr>"
  by (simp add: fetch_request_def no_options_def merge_headers_def json_headers_def JSON_stringify_def)





section \<open>Properties of the task list\<close>

lemma removeTask_effect:
  "app_tasks (state_of (removeTask captured ident (Inr v) st)) =
     filter (\<lambda>t. t_id t \<noteq> ident) (app_tasks st)
   \<and> app_selectedId (state_of (removeTask captured ident (Inr v) st)) =
     (if captured = Some ident then None else app_selectedId st)"
  by (simp add: removeTask_def state_of_def)

text \<open>
  Claim C4 asks that the selection is cleared when the task removed is the selected one.
  \<open>removeTask\<close> compares the id with the \<open>selectedId\<close> of the render in which the delete
  button was drawn. With the tasks 1 and 2 listed and 2 selected, the user asks to delete
  task 1 and selects task 1 before the reply: when the deletion has succeeded, task 1 is
  gone from the list and is still the selection, which names no listed task.
\<close>

theorem removeTask_stale_selection:
  "state_of (removeTask (Some 2) 1 (Inr Null)
       (app_init\<lparr>app_tasks := [task1, task2], app_selectedId := Some 1\<rparr>))
     = app_init\<lparr>app_tasks := [task2], app_selectedId := Some 1\<rparr>
   \<and> thrown (removeTask (Some 2) 1 (Inr Null)
       (app_init\<lparr>app_tasks := [task1, task2], app_selectedId := Some 1\<rparr>)) = None
   \<and> selectedTask (app_init\<lparr>app_tasks := [task2], app_selectedId := Some 1\<rparr>) = None"
  by (simp add: removeTask_def state_of_def thrown_def selectedTask_def app_init_def
        task1_def task2_def)

text \<open>
  Claim C9. After a successful \<open>createTask\<close>, the task returned is the last element of the
  local list, the tasks listed before are unchanged and in place, and the new task is the
  selected one; the handler makes that one call.
\<close>

theorem addTask_ok:
  "thrown (addTask title description (Inr newTask) st) = None
   \<and> app_tasks (state_of (addTask title description (Inr newTask) st)) = app_tasks st @ [newTask]
   \<and> take (length (app_tasks st)) (app_tasks (state_of (addTask title description (Inr newTask) st)))
       = app_tasks st
   \<and> last (app_tasks (state_of (addTask title description (Inr newTask) st))) = newTask
   \<and> app_selectedId (state_of (addTask title description (Inr newTask) st)) = Some (t_id newTask)
   \<and> calls_of (addTask title description (Inr newTask) st) = [CreateTask title description]"
  by (simp add: addTask_def thrown_def state_of_def calls_of_def)


lemma initial_load_effect:
  "app_tasks (state_of (initial_load (Inr data) st)) = data
   \<and> app_selectedId (state_of (initial_load (Inr data) st)) =
     (case data of [] \<Rightarrow> app_selectedId st | first # rest \<Rightarrow> Some (t_id first))"
  by (simp add: initial_load_def fetchTasks_def state_of_def not_selected_def app_init_def
        split: list.splits)

text \<open>
  Claim C5 asks that the initial load leaves an existing selection unchanged. The load is
  \<open>fetchTasks\<close> of the first render, whose \<open>selectedId\<close> is \<open>null\<close> whatever the selection is
  when the reply arrives. The user adds task 7 while the list is loading, which selects
  it; the list then arrives with the tasks 1, 2 and 7, and the selection moves to task 1.
\<close>

theorem initial_load_overrides_selection:
  "app_selectedId (state_of (initial_load (Inr [task1, task2, task7])
       (app_init\<lparr>app_tasks := [task7], app_selectedId := Some 7, app_loading := True\<rparr>)))
     = Some 1
   \<and> app_selectedId (state_of (addTask (JStr ''Book flights'') Undefined (Inr task7)
       (app_init\<lparr>app_loading := True\<rparr>))) = Some 7"
  by (simp add: initial_load_def fetchTasks_def addTask_def state_of_def not_selected_def
        app_init_def task1_def task7_def)

text \<open>
  Claim C6. After a successful \<open>createComment\<close>, \<open>updateComment\<close> or \<open>deleteComment\<close> the
  handler calls \<open>listComments(taskId)\<close> next and nothing else, and the local comment list
  becomes the list that call returns (it stays as it was if that call fails). \<open>addTask\<close>
  and \<open>saveTask\<close> make their one call and patch the local task list from the task
  returned: appended, or put in the place of the task with the id.
\<close>

theorem mutations_refresh:
  "calls_of (add taskId (Inr v) listed st) =
     [CreateComment taskId (JStr (cl_content st)) (add_author st), ListComments taskId]
   \<and> calls_of (save taskId ident body (Inr v) listed st) =
     [UpdateComment taskId ident body, ListComments taskId]
   \<and> calls_of (remove taskId ident (Inr v) listed st) =
     [DeleteComment taskId ident, ListComments taskId]
   \<and> cl_comments (state_of (add taskId (Inr v) (Inr cs) st)) = cs
   \<and> cl_comments (state_of (save taskId ident body (Inr v) (Inr cs) st)) = cs
   \<and> cl_comments (state_of (remove taskId ident (Inr v) (Inr cs) st)) = cs
   \<and> cl_comments (state_of (add taskId (Inr v) (Inl e) st)) = cl_comments st
   \<and> cl_comments (state_of (save taskId ident body (Inr v) (Inl e) st)) = cl_comments st
   \<and> cl_comments (state_of (remove taskId ident (Inr v) (Inl e) st)) = cl_comments st
   \<and> calls_of (addTask title description (Inr newTask) app) = [CreateTask title description]
   \<and> app_tasks (state_of (addTask title description (Inr newTask) app)) = app_tasks app @ [newTask]
   \<and> calls_of (saveTask ident body (Inr updated) app) = [UpdateTask ident body]
   \<and> app_tasks (state_of (saveTask ident body (Inr updated) app)) =
       map (\<lambda>t. if t_id t = ident then updated else t) (app_tasks app)"
  by (simp add: add_def save_def remove_def then_fetchComments_def fetchComments_def
        addTask_def saveTask_def calls_of_def state_of_def split: sum.splits)


section \<open>Properties of the timestamp line\<close>


lemma iso_shape_chars:
  assumes "iso_date_time p"
  shows "\<exists>a b c d e f g h i j k l m n.
           p = [a, b, c, d, CHR ''-'', e, f, CHR ''-'', g, h, CHR ''T'', i, j, CHR '':'', k, l, CHR '':'', m, n]
           \<and> list_all is_digit [a, b, c, d, e, f, g, h, i, j, k, l, m, n]"
  using assms unfolding iso_date_time_def
  by (auto simp: length_Suc_conv numeral_eq_Suc)

lemma digit_not_T: "is_digit c \<Longrightarrow> c \<noteq> CHR ''T''"
  by (auto simp: is_digit_def)

text \<open>
  Claim C7. For every timestamp text that begins \<open>YYYY-MM-DDTHH:MM:SS\<close>, whatever follows,
  the line shown is \<open>YYYY-MM-DD HH:MM:SS\<close>: those 19 characters with the \<open>T\<close> replaced by a
  space.
\<close>

theorem display_timestamp_iso:
  "iso_date_time p \<Longrightarrow>
     display_timestamp (Some (p @ suffix)) = take 10 p @ '' '' @ drop 11 p
     \<and> display_timestamp (Some (p @ suffix)) = p[10 := CHR '' '']
     \<and> length (display_timestamp (Some (p @ suffix))) = 19"
proof -
  assume a: "iso_date_time p"
  from iso_shape_chars [OF a] obtain a b c d e f g h i j k l m n where
    p: "p = [a, b, c, d, CHR ''-'', e, f, CHR ''-'', g, h, CHR ''T'', i, j, CHR '':'', k, l, CHR '':'', m, n]"
    and dg: "list_all is_digit [a, b, c, d, e, f, g, h, i, j, k, l, m, n]" by blast
  from dg have nT: "a \<noteq> CHR ''T''" "b \<noteq> CHR ''T''" "c \<noteq> CHR ''T''" "d \<noteq> CHR ''T''"
    "e \<noteq> CHR ''T''" "f \<noteq> CHR ''T''" "g \<noteq> CHR ''T''" "h \<noteq> CHR ''T''"
    by (simp_all add: digit_not_T)
  show ?thesis
    by (simp add: p nT display_timestamp_def or_else_def slice_from_0_def)
qed

theorem display_timestamp_iso_witness:
  "iso_date_time ''2024-05-01T10:20:30''
   \<and> display_timestamp (Some ''2024-05-01T10:20:30.123456+00:00'') = ''2024-05-01 10:20:30''
   \<and> display_timestamp (t_created_at task1) = ''2024-05-01 10:20:30''"
proof -
  have h: "iso_date_time ''2024-05-01T10:20:30''"
    by (simp add: iso_date_time_def is_digit_def)
  from display_timestamp_iso [OF h, of "''.123456+00:00''"] display_timestamp_iso [OF h, of "''.123456''"] h
  show ?thesis by (simp add: task1_def)
qed

section \<open>Properties of the comment author\<close>


lemma http_at_snd_recording_cases:
  "snd (http_at (recording_runtime B p big te srv) pieces opts log) =
     (case template_literal big pieces of
        None \<Rightarrow> log
      | Some path \<Rightarrow> log @ [fetch_request B path opts])"
proof (cases "template_literal big pieces")
  case None
  then show ?thesis by (simp add: http_at_def recording_runtime_def)
next
  case (Some path)
  then show ?thesis by (simp add: http_at_snd_recording)
qed

lemma issue_recorded_body:
  "req_body (last (snd (issue (recording_runtime B p big te srv) (CreateComment taskId content author) log)))
     = JSON_stringify (JObj [(''content'', content), (''author'', author)])"
  "req_body (last (snd (issue (recording_runtime B p big te srv) (UpdateComment taskId ident body) log)))
     = JSON_stringify body"
  by (simp_all add: createComment_def updateComment_def http_at_snd_recording_cases
        fetch_request_def no_options_def)

text \<open>
  Claim C2 as stated fails for a comment whose author is the empty string: the author is
  present, the name shown is Anonymous, and saving the edit form sends \<open>null\<close> for it.
\<close>

theorem author_blank_counterexample:
  "c_author comment_blank_author = Some []
   \<and> display_author comment_blank_author = ''Anonymous''
   \<and> member_of (edit_body (edit_init comment_blank_author)) ''author'' = Null"
  by (simp add: comment_blank_author_def display_author_def edit_body_def edit_init_def or_else_def)

text \<open>
  Claim C2, amended. The client treats an absent author and an empty author alike. The
  name shown is \<open>c.author\<close> when that is a non-empty text and Anonymous otherwise. The add
  form sends the author typed and leaves the property out of the body when the input is
  empty. The edit form starts from \<open>c.author\<close>, or from the empty text when the author is
  absent, and sends the author typed, or \<open>null\<close> when the input is empty.
\<close>

theorem author_display_and_forms:
  "(c_author c = Some a \<and> a \<noteq> [] \<longrightarrow> display_author c = a)
   \<and> (c_author c = None \<or> c_author c = Some [] \<longrightarrow> display_author c = ''Anonymous'')
   \<and> hd (calls_of (add taskId reply listed st)) =
        CreateComment taskId (JStr (cl_content st)) (add_author st)
   \<and> (cl_author st \<noteq> [] \<longrightarrow>
        req_body (last (snd (issue (recording_runtime B p big te srv)
            (CreateComment taskId (JStr (cl_content st)) (add_author st)) log)))
        = Some (JObj [(''content'', JStr (cl_content st)), (''author'', JStr (cl_author st))]))
   \<and> (cl_author st = [] \<longrightarrow>
        req_body (last (snd (issue (recording_runtime B p big te srv)
            (CreateComment taskId (JStr (cl_content st)) (add_author st)) log)))
        = Some (JObj [(''content'', JStr (cl_content st))]))
   \<and> (c_author c = Some a \<longrightarrow> ec_author (edit_init c) = a)
   \<and> (c_author c = None \<longrightarrow> ec_author (edit_init c) = [])
   \<and> hd (calls_of (EditableComment_save taskId c reply listed (e, st))) =
        UpdateComment taskId (c_id c) (edit_body e)
   \<and> (ec_author e \<noteq> [] \<longrightarrow>
        req_body (last (snd (issue (recording_runtime B p big te srv)
            (UpdateComment taskId (c_id c) (edit_body e)) log)))
        = Some (JObj [(''content'', JStr (ec_content e)), (''author'', JStr (ec_author e))]))
   \<and> (ec_author e = [] \<longrightarrow>
        req_body (last (snd (issue (recording_runtime B p big te srv)
            (UpdateComment taskId (c_id c) (edit_body e)) log)))
        = Some (JObj [(''content'', JStr (ec_content e)), (''author'', Null)]))"
proof -
  have 1: "(c_author c = Some a \<and> a \<noteq> [] \<longrightarrow> display_author c = a)
      \<and> (c_author c = None \<or> c_author c = Some [] \<longrightarrow> display_author c = ''Anonymous'')"
    by (auto simp: display_author_def or_else_def)
  have 2: "hd (calls_of (add taskId reply listed st)) =
        CreateComment taskId (JStr (cl_content st)) (add_author st)"
    by (cases reply; cases listed)
       (simp_all add: add_def calls_of_def then_fetchComments_def fetchComments_def)
  have 3: "(c_author c = Some a \<longrightarrow> ec_author (edit_init c) = a)
      \<and> (c_author c = None \<longrightarrow> ec_author (edit_init c) = [])"
    by (auto simp: edit_init_def or_else_def)
  have 4: "hd (calls_of (EditableComment_save taskId c reply listed (e, st))) =
        UpdateComment taskId (c_id c) (edit_body e)"
    by (cases reply; cases listed)
       (simp_all add: EditableComment_save_def save_def calls_of_def then_fetchComments_def
          fetchComments_def)
  have 5: "(cl_author st \<noteq> [] \<longrightarrow>
        req_body (last (snd (issue (recording_runtime B p big te srv)
            (CreateComment taskId (JStr (cl_content st)) (add_author st)) log)))
        = Some (JObj [(''content'', JStr (cl_content st)), (''author'', JStr (cl_author st))]))
   \<and> (cl_author st = [] \<longrightarrow>
        req_body (last (snd (issue (recording_runtime B p big te srv)
            (CreateComment taskId (JStr (cl_content st)) (add_author st)) log)))
        = Some (JObj [(''content'', JStr (cl_content st))]))"
    unfolding issue_recorded_body by (simp add: add_author_def JSON_stringify_def)
  have 6: "(ec_author e \<noteq> [] \<longrightarrow>
        req_body (last (snd (issue (recording_runtime B p big te srv)
            (UpdateComment taskId (c_id c) (edit_body e)) log)))
        = Some (JObj [(''content'', JStr (ec_content e)), (''author'', JStr (ec_author e))]))
   \<and> (ec_author e = [] \<longrightarrow>
        req_body (last (snd (issue (recording_runtime B p big te srv)
            (UpdateComment taskId (c_id c) (edit_body e)) log)))
        = Some (JObj [(''content'', JStr (ec_content e)), (''author'', Null)]))"
    unfolding issue_recorded_body by (simp add: edit_body_def JSON_stringify_def)
  from 1 2 3 4 5 6 show ?thesis by blast
qed

theorem author_display_and_forms_witness:
  "display_author comment_by_ana = ''Ana''
   \<and> display_author comment_no_author = ''Anonymous''
   \<and> req_body (last (snd (issue (recording_runtime [] Map.empty exponent_form cannot_convert (\<lambda>r. Inr no_content))
          (CreateComment 1 (JStr ''skimmed'') (add_author (comments_init\<lparr>cl_content := ''skimmed'', cl_author := ''Ana''\<rparr>))) [])))
       = Some (JObj [(''content'', JStr ''skimmed''), (''author'', JStr ''Ana'')])
   \<and> req_body (last (snd (issue (recording_runtime [] Map.empty exponent_form cannot_convert (\<lambda>r. Inr no_content))
          (CreateComment 1 (JStr ''urgent'') (add_author (comments_init\<lparr>cl_content := ''urgent''\<rparr>))) [])))
       = Some (JObj [(''content'', JStr ''urgent'')])
   \<and> ec_author (edit_init comment_by_ana) = ''Ana''
   \<and> ec_author (edit_init comment_no_author) = []
   \<and> req_body (last (snd (issue (recording_runtime [] Map.empty exponent_form cannot_convert (\<lambda>r. Inr no_content))
          (UpdateComment 1 11 (edit_body (edit_init comment_by_ana))) [])))
       = Some (JObj [(''content'', JStr ''skimmed''), (''author'', JStr ''Ana'')])
   \<and> req_body (last (snd (issue (recording_runtime [] Map.empty exponent_form cannot_convert (\<lambda>r. Inr no_content))
          (UpdateComment 1 12 (edit_body (edit_init comment_no_author))) [])))
       = Some (JObj [(''content'', JStr ''two litres''), (''author'', Null)])"
proof -
  let ?rt = "recording_runtime [] Map.empty exponent_form cannot_convert (\<lambda>r. Inr no_content)"
  note a = author_display_and_forms [of comment_by_ana "''Ana''" 1 _ _
      "comments_init\<lparr>cl_content := ''skimmed'', cl_author := ''Ana''\<rparr>" "[]" Map.empty
      exponent_form cannot_convert "\<lambda>r. Inr no_content" "[]" "edit_init comment_by_ana"]
  note b = author_display_and_forms [of comment_no_author _ 1 _ _
      "comments_init\<lparr>cl_content := ''urgent''\<rparr>" "[]" Map.empty
      exponent_form cannot_convert "\<lambda>r. Inr no_content" "[]" "edit_init comment_no_author"]
  have 1: "display_author comment_by_ana = ''Ana''"
    using a by (simp add: comment_by_ana_def)
  have 2: "display_author comment_no_author = ''Anonymous''"
    using b by (simp add: comment_no_author_def)
  have 3: "req_body (last (snd (issue ?rt
          (CreateComment 1 (JStr ''skimmed'') (add_author (comments_init\<lparr>cl_content := ''skimmed'', cl_author := ''Ana''\<rparr>))) [])))
       = Some (JObj [(''content'', JStr ''skimmed''), (''author'', JStr ''Ana'')])"
    using a by (simp add: comments_init_def)
  have 4: "req_body (last (snd (issue ?rt
          (CreateComment 1 (JStr ''urgent'') (add_author (comments_init\<lparr>cl_content := ''urgent''\<rparr>))) [])))
       = Some (JObj [(''content'', JStr ''urgent'')])"
    using b by (simp add: comments_init_def)
  have 5: "ec_author (edit_init comment_by_ana) = ''Ana''"
    using a by (simp add: comment_by_ana_def)
  have 6: "ec_author (edit_init comment_no_author) = []"
    using b by (simp add: comment_no_author_def)
  have ea: "ec_author (edit_init comment_by_ana) \<noteq> []" "ec_content (edit_init comment_by_ana) = ''skimmed''"
    "c_id comment_by_ana = 11"
    by (simp_all add: edit_init_def comment_by_ana_def or_else_def)
  have eb: "ec_author (edit_init comment_no_author) = []" "ec_content (edit_init comment_no_author) = ''two litres''"
    "c_id comment_no_author = 12"
    by (simp_all add: edit_init_def comment_no_author_def)
  have 7: "req_body (last (snd (issue ?rt
          (UpdateComment 1 11 (edit_body (edit_init comment_by_ana))) [])))
       = Some (JObj [(''content'', JStr ''skimmed''), (''author'', JStr ''Ana'')])"
    using a ea 5 by simp
  have 8: "req_body (last (snd (issue ?rt
          (UpdateComment 1 12 (edit_body (edit_init comment_no_author))) [])))
       = Some (JObj [(''content'', JStr ''two litres''), (''author'', Null)])"
    using b eb by simp
  from 1 2 3 4 5 6 7 8 show ?thesis by blast
qed


section \<open>Cascade delete in the data/API layer\<close>


lemma no_orphans_iff:
  "no_orphans s \<longleftrightarrow> (\<forall>c \<in> set (db_comments s). sc_task_id c \<in> st_id ` set (db_tasks s))"
  by (simp add: no_orphans_def orphaned_def task_exists_def list_all_iff)

lemma find_comment_Inr:
  "find_comment taskId commentId s = Inr c \<Longrightarrow>
     c \<in> set (db_comments s) \<and> sc_task_id c = taskId \<and> task_exists s taskId"
  by (auto simp: find_comment_def find_Some_iff split: if_splits option.splits)

lemma find_task_Some:
  "find (\<lambda>t. st_id t = ident) ts = Some t \<Longrightarrow> t \<in> set ts \<and> st_id t = ident"
  by (auto simp: find_Some_iff)

lemma createTask_no_orphans:
  "no_orphans s \<Longrightarrow> srv_createTask title description s = Inr (t, s') \<Longrightarrow> no_orphans s'"
  by (auto simp: no_orphans_iff srv_createTask_def Let_def split: option.splits if_splits)

lemma updateTask_ids:
  "srv_updateTask ident title description s = Inr (t, s') \<Longrightarrow>
     st_id ` set (db_tasks s') = st_id ` set (db_tasks s) \<and> db_comments s' = db_comments s"
proof -
  assume a: "srv_updateTask ident title description s = Inr (t, s')"
  then obtain t0 where f: "find (\<lambda>t. st_id t = ident) (db_tasks s) = Some t0"
    by (auto simp: srv_updateTask_def split: option.splits)
  from a f have s': "db_tasks s' = map (\<lambda>x. if st_id x = ident then t else x) (db_tasks s)"
      "db_comments s' = db_comments s" "st_id t = st_id t0"
    by (auto simp: srv_updateTask_def Let_def split: if_splits)
  from find_task_Some [OF f] have "st_id t0 = ident" by simp
  with s' have "map st_id (db_tasks s') = map st_id (db_tasks s)" by (simp add: comp_def cong: map_cong)
  then have "st_id ` set (db_tasks s') = st_id ` set (db_tasks s)" by (metis set_map)
  with s'(2) show ?thesis by blast
qed

lemma updateTask_no_orphans:
  "no_orphans s \<Longrightarrow> srv_updateTask ident title description s = Inr (t, s') \<Longrightarrow> no_orphans s'"
  using updateTask_ids [of ident title description s t s'] by (simp add: no_orphans_iff)

lemma deleteTask_no_orphans:
  "no_orphans s \<Longrightarrow> srv_deleteTask ident s = Inr s' \<Longrightarrow> no_orphans s'"
  by (fastforce simp: no_orphans_iff srv_deleteTask_def split: if_splits)

lemma createComment_no_orphans:
  "no_orphans s \<Longrightarrow> srv_createComment taskId content author s = Inr (c, s') \<Longrightarrow> no_orphans s'"
  by (auto simp: no_orphans_iff srv_createComment_def task_exists_def Let_def
           split: option.splits if_splits)

lemma updateComment_no_orphans:
  assumes "no_orphans s" and "srv_updateComment taskId commentId content author s = Inr (c, s')"
  shows "no_orphans s'"
proof -
  from assms(2) obtain c0 where f: "find_comment taskId commentId s = Inr c0"
    by (auto simp: srv_updateComment_def split: sum.splits)
  from assms(2) f have s': "db_tasks s' = db_tasks s"
      "db_comments s' = map (\<lambda>x. if sc_id x = commentId then c else x) (db_comments s)"
      "sc_task_id c = sc_task_id c0"
    by (auto simp: srv_updateComment_def Let_def split: if_splits)
  from find_comment_Inr [OF f] have "sc_task_id c0 \<in> st_id ` set (db_tasks s)"
    by (simp add: task_exists_def)
  with assms(1) s' show ?thesis by (auto simp: no_orphans_iff)
qed

lemma deleteComment_no_orphans:
  "no_orphans s \<Longrightarrow> srv_deleteComment taskId commentId s = Inr s' \<Longrightarrow> no_orphans s'"
  by (auto simp: no_orphans_iff srv_deleteComment_def split: sum.splits)

lemma srv_apply_no_orphans:
  "no_orphans s \<Longrightarrow> srv_apply op s = Inr s' \<Longrightarrow> no_orphans s'"
proof (cases op)
  case (OpCreateTask title description)
  assume "no_orphans s" "srv_apply op s = Inr s'"
  with OpCreateTask show ?thesis
    by (cases "srv_createTask title description s") (auto dest: createTask_no_orphans)
next
  case (OpUpdateTask ident title description)
  assume "no_orphans s" "srv_apply op s = Inr s'"
  with OpUpdateTask show ?thesis
    by (cases "srv_updateTask ident title description s") (auto dest: updateTask_no_orphans)
next
  case (OpDeleteTask ident)
  assume "no_orphans s" "srv_apply op s = Inr s'"
  with OpDeleteTask show ?thesis by (auto dest: deleteTask_no_orphans)
next
  case (OpCreateComment taskId content author)
  assume "no_orphans s" "srv_apply op s = Inr s'"
  with OpCreateComment show ?thesis
    by (cases "srv_createComment taskId content author s") (auto dest: createComment_no_orphans)
next
  case (OpUpdateComment taskId commentId content author)
  assume "no_orphans s" "srv_apply op s = Inr s'"
  with OpUpdateComment show ?thesis
    by (cases "srv_updateComment taskId commentId content author s")
       (auto dest: updateComment_no_orphans)
next
  case (OpDeleteComment taskId commentId)
  assume "no_orphans s" "srv_apply op s = Inr s'"
  with OpDeleteComment show ?thesis by (auto dest: deleteComment_no_orphans)
qed

lemma srv_run_no_orphans: "no_orphans s \<Longrightarrow> no_orphans (srv_run ops s)"
proof (induction ops arbitrary: s)
  case Nil
  then show ?case by simp
next
  case (Cons op ops)
  show ?case
  proof (cases "srv_apply op s")
    case (Inl e)
    with Cons show ?thesis by simp
  next
    case (Inr s')
    with Cons srv_apply_no_orphans [of s op s'] show ?thesis by simp
  qed
qed

lemma no_orphans_empty: "no_orphans empty_store"
  by (simp add: no_orphans_def empty_store_def)

text \<open>
  Claim C1. In every store that a sequence of writes reaches from the empty store, no
  comment is orphaned; and when \<open>deleteTask(id)\<close> succeeds there, the one store after it
  has neither the task nor any comment of the task, holds no orphan, and answers
  \<open>listComments(id)\<close> with NotFoundError.
\<close>

theorem deleteTask_cascade:
  "no_orphans (srv_run ops empty_store)
   \<and> (srv_deleteTask ident (srv_run ops empty_store) = Inr s' \<longrightarrow>
        srv_listComments ident s' = Inl NotFoundError
        \<and> (\<forall>t \<in> set (db_tasks s'). st_id t \<noteq> ident)
        \<and> (\<forall>c \<in> set (db_comments s'). sc_task_id c \<noteq> ident)
        \<and> db_comments s' = filter (\<lambda>c. sc_task_id c \<noteq> ident) (db_comments (srv_run ops empty_store))
        \<and> no_orphans s')"
proof -
  have inv: "no_orphans (srv_run ops empty_store)"
    by (rule srv_run_no_orphans [OF no_orphans_empty])
  have del: "srv_listComments ident s' = Inl NotFoundError
        \<and> (\<forall>t \<in> set (db_tasks s'). st_id t \<noteq> ident)
        \<and> (\<forall>c \<in> set (db_comments s'). sc_task_id c \<noteq> ident)
        \<and> db_comments s' = filter (\<lambda>c. sc_task_id c \<noteq> ident) (db_comments s)"
    if "srv_deleteTask ident s = Inr s'" for s
    using that
    by (auto simp: srv_deleteTask_def srv_listComments_def task_exists_def split: if_splits)
  from inv del deleteTask_no_orphans show ?thesis by blast
qed

theorem deleteTask_cascade_witness:
  "length (db_comments (srv_run [OpCreateTask (Some ''Buy milk'') None,
        OpCreateComment 1 (Some ''urgent'') None] empty_store)) = 1
   \<and> srv_deleteTask 1 (srv_run [OpCreateTask (Some ''Buy milk'') None,
        OpCreateComment 1 (Some ''urgent'') None] empty_store)
       = Inr \<lparr>db_tasks = [], db_comments = [], db_next_task_id = 2, db_next_comment_id = 2,
              db_clock = 3\<rparr>
   \<and> srv_listComments 1 \<lparr>db_tasks = [], db_comments = [], db_next_task_id = 2,
        db_next_comment_id = 2, db_clock = 3\<rparr> = Inl NotFoundError
   \<and> no_orphans (srv_run [OpCreateTask (Some ''Buy milk'') None,
        OpCreateComment 1 (Some ''urgent'') None] empty_store)"
proof -
  let ?ops = "[OpCreateTask (Some ''Buy milk'') None, OpCreateComment 1 (Some ''urgent'') None]"
  let ?s' = "\<lparr>db_tasks = [], db_comments = [], db_next_task_id = 2, db_next_comment_id = 2,
              db_clock = 3\<rparr>"
  have run: "srv_run ?ops empty_store =
      \<lparr>db_tasks = [\<lparr>st_id = 1, st_title = ''Buy milk'', st_description = None,
                    st_created_at = 1, st_updated_at = 1\<rparr>],
       db_comments = [\<lparr>sc_id = 1, sc_task_id = 1, sc_content = ''urgent'', sc_author = None,
                       sc_created_at = 2, sc_updated_at = 2\<rparr>],
       db_next_task_id = 2, db_next_comment_id = 2, db_clock = 2\<rparr>"
    by (simp add: empty_store_def srv_createTask_def srv_createComment_def task_exists_def
          valid_content_def tick_def Let_def)
  have del: "srv_deleteTask 1 (srv_run ?ops empty_store) = Inr ?s'"
    unfolding run by (simp add: srv_deleteTask_def task_exists_def tick_def)
  from deleteTask_cascade [of ?ops 1 ?s'] del run show ?thesis by simp
qed


end
